theory Spec2Isabelle
  imports Main
begin

section \<open>Data model (vara.go, listener.go, main.go)\<close>

text \<open>
  The client talks to the VARA modem program over two TCP connections. The session object
  is the Go struct \<open>Modem\<close>; the TCP connections, the one-element channel
  \<open>connectChange\<close>, the PTT controller and the log are objects that the struct only
  points to, so they live in a separate \<open>World\<close>: a copy of the struct (as the
  connection facade holds one) shares them.
\<close>

datatype connectedState = connected | disconnected

record ModemConfig =
  Host :: string
  CmdPort :: int
  DataPort :: int

definition defaultConfig :: ModemConfig where
  "defaultConfig = \<lparr>Host = ''localhost'', CmdPort = 8300, DataPort = 8301\<rparr>"

text \<open>
  A \<open>*net.TCPConn\<close> is an address (a natural number) into the heap of connections of the
  world; \<open>nil\<close> is \<open>None\<close>. The field \<open>connectChange\<close> of the source is a reference
  to the channel made once by \<open>NewModem\<close>; its buffer is the field \<open>slot\<close> of the
  world. The field \<open>rig\<close> is a reference to the PTT controller.
\<close>

record Modem =
  scheme :: string
  myCall :: string
  config :: ModemConfig
  cmdConn :: "nat option"
  dataConn :: "nat option"
  toCall :: string
  busy :: bool
  lastState :: connectedState
  rig :: "nat option"

text \<open>
  One TCP connection: whether it has been closed on this side, whether the link is broken
  (a write on it fails), and the byte strings written to it so far, in order.
\<close>

record TCPConn =
  closed :: bool
  broken :: bool
  wrote :: "string list"

record World =
  conns :: "nat \<Rightarrow> TCPConn"
  fresh :: nat
  slot :: "connectedState option"
  resolvable :: "string \<Rightarrow> bool"
  accepting :: "string \<Rightarrow> int \<Rightarrow> bool"
  readers :: nat
  keyed :: "(nat \<times> bool) list"
  logs :: "string list"
  now :: nat

type_synonym state = "Modem \<times> World"

datatype error =
    ErrUnsupportedScheme
  | ErrResolve string
  | ErrConnect string
  | ErrBandwidth string
  | ErrConnectionFailed
  | ErrClosed
  | ErrWrite

text \<open>
  What a call does: it returns a value, returns an error, stays parked on the channel (a
  receive from the empty slot or a send into the full one, with nobody on the other side),
  or panics on a nil pointer.
\<close>

datatype 'a result = Done 'a | Fail error | Parked | Panic

definition andThen ::
  "(state \<Rightarrow> 'a result \<times> state) \<Rightarrow> ('a \<Rightarrow> state \<Rightarrow> 'b result \<times> state)
    \<Rightarrow> state \<Rightarrow> 'b result \<times> state" where
  "andThen f g s =
     (case f s of
        (Done x, s') \<Rightarrow> g x s'
      | (Fail e, s') \<Rightarrow> (Fail e, s')
      | (Parked, s') \<Rightarrow> (Parked, s')
      | (Panic, s') \<Rightarrow> (Panic, s'))"

record Addr =
  addr_string :: string
  addr_scheme :: string

record URL =
  Scheme :: string
  Target :: string
  Params :: "(string \<times> string list) list"

text \<open>\<open>url.Values.Get\<close>: the first value of the key, the empty string when there is none.\<close>

definition Params_Get :: "(string \<times> string list) list \<Rightarrow> string \<Rightarrow> string" where
  "Params_Get ps k =
     (case map_of ps k of None \<Rightarrow> [] | Some [] \<Rightarrow> [] | Some (v # vs) \<Rightarrow> v)"

text \<open>The facade: the data connection and a copy of the session, both by value.\<close>

record varaDataConn =
  TCPConn_of :: nat
  modem :: Modem

section \<open>Strings\<close>

definition CR :: char where
  "CR = CHR 0x0D"

definition HasPrefix :: "string \<Rightarrow> string \<Rightarrow> bool" where
  "HasPrefix s p = (take (length p) s = p)"

text \<open>\<open>strings.Split\<close> with a separator of one character.\<close>

fun Split :: "string \<Rightarrow> char \<Rightarrow> string list" where
  "Split [] sep = [[]]"
| "Split (c # cs) sep =
     (if c = sep then [] # Split cs sep
      else (case Split cs sep of
              [] \<Rightarrow> [[c]]
            | x # xs \<Rightarrow> (c # x) # xs))"

definition bandwidths :: "string list" where
  "bandwidths = [''500'', ''2300'', ''2750'']"

primrec contains :: "string list \<Rightarrow> string \<Rightarrow> bool" where
  "contains [] s = False"
| "contains (e # c) s = (if e = s then True else contains c s)"

section \<open>The session (vara.go)\<close>

text \<open>
  \<open>mergo.Merge\<close> fills the zero-valued fields of the configuration with the defaults; on
  two values of the same struct type it does not fail.
\<close>

definition mergeConfig :: "ModemConfig \<Rightarrow> ModemConfig \<Rightarrow> ModemConfig" where
  "mergeConfig c d =
     \<lparr>Host = (if Host c = [] then Host d else Host c),
      CmdPort = (if CmdPort c = 0 then CmdPort d else CmdPort c),
      DataPort = (if DataPort c = 0 then DataPort d else DataPort c)\<rparr>"

definition NewModem :: "string \<Rightarrow> string \<Rightarrow> ModemConfig \<Rightarrow> Modem" where
  "NewModem sch call cfg =
     \<lparr>scheme = sch, myCall = call, config = mergeConfig cfg defaultConfig,
      cmdConn = None, dataConn = None, toCall = [], busy = False,
      lastState = disconnected, rig = None\<rparr>"

text \<open>
  The world at program start: no connection, an empty channel, no reader, and a network in
  which the modem program is reachable or not.
\<close>

definition initWorld :: "(string \<Rightarrow> bool) \<Rightarrow> (string \<Rightarrow> int \<Rightarrow> bool) \<Rightarrow> World" where
  "initWorld res acc =
     \<lparr>conns = (\<lambda>p. \<lparr>closed = True, broken = False, wrote = []\<rparr>), fresh = 0, slot = None,
      resolvable = res, accepting = acc, readers = 0, keyed = [], logs = [], now = 0\<rparr>"

text \<open>
  \<open>connectTCP\<close>: \<open>net.ResolveTCPAddr\<close> fails when the host does not resolve or the port is
  not in the range 0 to 65535; \<open>net.DialTCP\<close> fails when nothing accepts the connection.
\<close>

definition connectTCP :: "string \<Rightarrow> int \<Rightarrow> state \<Rightarrow> nat result \<times> state" where
  "connectTCP name port = (\<lambda>(m, w).
     if \<not> resolvable w (Host (config m)) \<or> port < 0 \<or> 65535 < port
     then (Fail (ErrResolve name), (m, w))
     else if \<not> accepting w (Host (config m)) port then (Fail (ErrConnect name), (m, w))
     else (Done (fresh w),
           (m, w\<lparr>conns := (conns w)(fresh w := \<lparr>closed = False, broken = False, wrote = []\<rparr>),
                 fresh := Suc (fresh w)\<rparr>)))"

definition disconnectTCP :: "nat option \<Rightarrow> World \<Rightarrow> nat option \<times> World" where
  "disconnectTCP port w =
     (case port of
        None \<Rightarrow> (None, w)
      | Some p \<Rightarrow> (None, w\<lparr>conns := (conns w)(p := (conns w p)\<lparr>closed := True\<rparr>)\<rparr>))"

text \<open>
  \<open>writeCmd\<close> writes the command and a carriage return to the command connection. The
  method \<open>Write\<close> is promoted from the struct embedded in \<open>TCPConn\<close>, so the call on a nil
  \<open>cmdConn\<close> is a nil-pointer dereference.
\<close>

definition writeCmd :: "string \<Rightarrow> state \<Rightarrow> unit result \<times> state" where
  "writeCmd cmd = (\<lambda>(m, w).
     case cmdConn m of
       None \<Rightarrow> (Panic, (m, w))
     | Some p \<Rightarrow>
         if closed (conns w p) then (Fail ErrClosed, (m, w))
         else if broken (conns w p) then (Fail ErrWrite, (m, w))
         else (Done (),
               (m, w\<lparr>conns := (conns w)(p := (conns w p)\<lparr>wrote := wrote (conns w p) @ [cmd @ [CR]]\<rparr>)\<rparr>)))"

definition sendPTT :: "bool \<Rightarrow> state \<Rightarrow> unit result \<times> state" where
  "sendPTT on = (\<lambda>(m, w).
     case rig m of
       None \<Rightarrow> (Done (), (m, w))
     | Some r \<Rightarrow> (Done (), (m, w\<lparr>keyed := keyed w @ [(r, on)]\<rparr>)))"

text \<open>The channel of capacity one: a send into the full slot and a receive from the empty one park.\<close>

definition send :: "connectedState \<Rightarrow> state \<Rightarrow> unit result \<times> state" where
  "send v = (\<lambda>(m, w).
     case slot w of
       None \<Rightarrow> (Done (), (m, w\<lparr>slot := Some v\<rparr>))
     | Some u \<Rightarrow> (Parked, (m, w)))"

definition recv :: "state \<Rightarrow> connectedState result \<times> state" where
  "recv = (\<lambda>(m, w).
     case slot w of
       None \<Rightarrow> (Parked, (m, w))
     | Some v \<Rightarrow> (Done v, (m, w\<lparr>slot := None\<rparr>)))"

definition logPrint :: "string \<Rightarrow> state \<Rightarrow> unit result \<times> state" where
  "logPrint msg = (\<lambda>(m, w). (Done (), (m, w\<lparr>logs := logs w @ [msg]\<rparr>)))"

definition handleConnect :: "state \<Rightarrow> unit result \<times> state" where
  "handleConnect = (\<lambda>(m, w). send connected (m\<lparr>lastState := connected\<rparr>, w))"

text \<open>
  \<open>handleDisconnect\<close>: the state, the send, and then the teardown of the connections and
  of the fields. A handler parked on its send goes on, once the send is possible, with the
  send and the teardown (\<open>handleDisconnect_resume\<close>).
\<close>

definition handleDisconnect_teardown :: "state \<Rightarrow> unit result \<times> state" where
  "handleDisconnect_teardown = (\<lambda>(m, w).
     let (d, w2) = disconnectTCP (dataConn m) w;
         (c, w3) = disconnectTCP (cmdConn m) w2
     in (Done (), (m\<lparr>dataConn := d, cmdConn := c, toCall := [], busy := False\<rparr>, w3)))"

definition handleDisconnect_resume :: "state \<Rightarrow> unit result \<times> state" where
  "handleDisconnect_resume = andThen (send disconnected) (\<lambda>_. handleDisconnect_teardown)"

definition handleDisconnect :: "state \<Rightarrow> unit result \<times> state" where
  "handleDisconnect = (\<lambda>(m, w). handleDisconnect_resume (m\<lparr>lastState := disconnected\<rparr>, w))"

text \<open>
  \<open>start\<close>, statement by statement. The statement \<open>go m.cmdListen()\<close> adds one reader,
  which from then on runs beside the caller: what it does with the lines it reads is
  \<open>cmdListen\<close> below, and it can act between any two of the statements that follow.
\<close>

definition start_cmd :: "state \<Rightarrow> unit result \<times> state" where
  "start_cmd = (\<lambda>(m, w).
     if cmdConn m = None
     then andThen (connectTCP ''command'' (CmdPort (config m)))
            (\<lambda>p (m1, w1). (Done (), (m1\<lparr>cmdConn := Some p\<rparr>, w1))) (m, w)
     else (Done (), (m, w)))"

definition start_spawn :: "state \<Rightarrow> unit result \<times> state" where
  "start_spawn = (\<lambda>(m, w). (Done (), (m, w\<lparr>readers := Suc (readers w)\<rparr>)))"

definition start_data :: "state \<Rightarrow> unit result \<times> state" where
  "start_data = (\<lambda>(m, w).
     if dataConn m = None
     then andThen (connectTCP ''data'' (DataPort (config m)))
            (\<lambda>p (m1, w1). (Done (), (m1\<lparr>dataConn := Some p\<rparr>, w1))) (m, w)
     else (Done (), (m, w)))"

definition start_busy :: "state \<Rightarrow> unit result \<times> state" where
  "start_busy = (\<lambda>(m, w). (Done (), (m\<lparr>busy := False\<rparr>, w)))"

definition start_cwid :: "state \<Rightarrow> unit result \<times> state" where
  "start_cwid = (\<lambda>(m, w).
     if scheme m = ''varahf'' then writeCmd ''CWID ON'' (m, w) else (Done (), (m, w)))"

definition start_mycall :: "state \<Rightarrow> unit result \<times> state" where
  "start_mycall = (\<lambda>(m, w). writeCmd (''MYCALL '' @ myCall m) (m, w))"

definition start :: "state \<Rightarrow> unit result \<times> state" where
  "start =
     andThen start_cmd
     (\<lambda>_. andThen start_spawn
     (\<lambda>_. andThen start_data
     (\<lambda>_. andThen start_busy
     (\<lambda>_. andThen (writeCmd ''PUBLIC ON'')
     (\<lambda>_. andThen start_cwid
     (\<lambda>_. andThen (writeCmd ''COMPRESSION TEXT'')
     (\<lambda>_. start_mycall)))))))"

text \<open>
  \<open>Close\<close>, in the three pieces between which the caller can be overtaken by the reader:
  the DISCONNECT command, the \<open>select\<close>, and the teardown. The \<open>select\<close> takes the value
  of the slot when there is one; when the slot is still empty at the end of the wait the
  timer fires, ten seconds after the \<open>select\<close> began.
\<close>

definition Close_request :: "state \<Rightarrow> unit result \<times> state" where
  "Close_request = (\<lambda>(m, w).
     if cmdConn m \<noteq> None then writeCmd ''DISCONNECT'' (m, w) else (Done (), (m, w)))"

definition Close_select :: "state \<Rightarrow> unit result \<times> state" where
  "Close_select = (\<lambda>(m, w).
     case slot w of
       Some res \<Rightarrow>
         if res \<noteq> disconnected
         then andThen (logPrint ''Disconnect failed, aborting!'')
                (\<lambda>_. writeCmd ''ABORT'') (m, w\<lparr>slot := None\<rparr>)
         else (Done (), (m, w\<lparr>slot := None\<rparr>))
     | None \<Rightarrow> writeCmd ''ABORT'' (m, w\<lparr>now := now w + 10\<rparr>))"

definition Close_teardown :: "state \<Rightarrow> unit result \<times> state" where
  "Close_teardown = andThen (sendPTT False) (\<lambda>_. handleDisconnect)"

definition Close :: "state \<Rightarrow> unit result \<times> state" where
  "Close = (\<lambda>(m, w).
     if lastState m = connected
     then andThen Close_request (\<lambda>_. andThen Close_select (\<lambda>_. Close_teardown)) (m, w)
     else Close_teardown (m, w))"

section \<open>The event reader (vara.go)\<close>

definition handleCmd :: "string \<Rightarrow> state \<Rightarrow> bool result \<times> state" where
  "handleCmd c = (\<lambda>(m, w).
     if c = ''PTT ON'' then andThen (sendPTT True) (\<lambda>_ s. (Done True, s)) (m, w)
     else if c = ''PTT OFF'' then andThen (sendPTT False) (\<lambda>_ s. (Done True, s)) (m, w)
     else if c = ''BUSY ON'' then (Done True, (m\<lparr>busy := True\<rparr>, w))
     else if c = ''BUSY OFF'' then (Done True, (m\<lparr>busy := False\<rparr>, w))
     else if c = ''OK'' then (Done True, (m, w))
     else if c = ''IAMALIVE'' then (Done True, (m, w))
     else if c = ''PENDING'' then (Done True, (m, w))
     else if c = ''DISCONNECTED'' then andThen handleDisconnect (\<lambda>_ s. (Done False, s)) (m, w)
     else if HasPrefix c ''CONNECTED'' then andThen handleConnect (\<lambda>_ s. (Done True, s)) (m, w)
     else if HasPrefix c ''BUFFER'' then (Done True, (m, w))
     else if HasPrefix c ''REGISTERED''
     then (let parts = Split c (CHR '' '') in
           if length parts > 1
           then andThen (logPrint (''VARA full speed available, registered to '' @ parts ! 1))
                  (\<lambda>_ s. (Done True, s)) (m, w)
           else (Done True, (m, w)))
     else andThen (logPrint (''got a vara command I wasn't expecting: '' @ c))
            (\<lambda>_ s. (Done True, s)) (m, w))"

text \<open>
  The inner loop of \<open>cmdListen\<close> over the lines of one read: empty lines are skipped, and
  the loop ends at the first line for which \<open>handleCmd\<close> says stop. The result \<open>True\<close> is
  "go on reading".
\<close>

fun handleCmds :: "string list \<Rightarrow> state \<Rightarrow> bool result \<times> state" where
  "handleCmds [] s = (Done True, s)"
| "handleCmds (c # cs) s =
     (if c = [] then handleCmds cs s
      else (case handleCmd c s of
              (Done True, s') \<Rightarrow> handleCmds cs s'
            | (r, s') \<Rightarrow> (r, s')))"

text \<open>
  What one \<open>Read\<close> on the command connection gives: bytes, the end of the stream, or
  another error. A read on a connection closed on this side gives \<open>net.ErrClosed\<close>.
\<close>

datatype reading = Bytes string | EOF | ReadError

text \<open>
  \<open>cmdListen\<close> on the readings that arrive. \<open>Done ()\<close>: the goroutine has returned.
  \<open>Parked\<close>: it is waiting, in \<open>Read\<close> for more bytes or on the full slot.
\<close>

fun cmdListen :: "reading list \<Rightarrow> state \<Rightarrow> unit result \<times> state" where
  "cmdListen rs (m, w) =
     (case cmdConn m of
        None \<Rightarrow> (Done (), (m, w))
      | Some p \<Rightarrow>
          if closed (conns w p) then (Done (), (m, w))
          else (case rs of
                  [] \<Rightarrow> (Parked, (m, w))
                | EOF # rs' \<Rightarrow> (Done (), (m, w))
                | ReadError # rs' \<Rightarrow> cmdListen rs' (m, w)
                | Bytes b # rs' \<Rightarrow>
                    (case handleCmds (Split b CR) (m, w) of
                       (Done True, s') \<Rightarrow> cmdListen rs' s'
                     | (Done False, s') \<Rightarrow> (Done (), s')
                     | (Fail e, s') \<Rightarrow> (Fail e, s')
                     | (Parked, s') \<Rightarrow> (Parked, s')
                     | (Panic, s') \<Rightarrow> (Panic, s'))))"

section \<open>Dial, listen, accept and the facade (main.go, listener.go)\<close>

definition setBandwidth :: "URL \<Rightarrow> state \<Rightarrow> unit result \<times> state" where
  "setBandwidth url = (\<lambda>(m, w).
     let bw = Params_Get (Params url) ''bw'' in
     if bw = [] then (Done (), (m, w))
     else if \<not> contains bandwidths bw then (Fail (ErrBandwidth bw), (m, w))
     else writeCmd (''BW'' @ bw) (m, w))"

text \<open>
  The wait on the channel that ends \<open>DialURL\<close> and is the whole of \<open>Accept\<close>: the facade
  is made of the data connection and of a copy of the session as it is at that moment.
\<close>

definition awaitConnect :: "state \<Rightarrow> varaDataConn result \<times> state" where
  "awaitConnect =
     andThen recv (\<lambda>res (m, w).
       if res \<noteq> connected then (Fail ErrConnectionFailed, (m\<lparr>dataConn := None\<rparr>, w))
       else (case dataConn m of
               None \<Rightarrow> (Panic, (m, w))
             | Some p \<Rightarrow> (Done \<lparr>TCPConn_of = p, modem = m\<rparr>, (m, w))))"

text \<open>\<open>DialURL\<close> up to and with the CONNECT command.\<close>

definition DialURL_request :: "URL \<Rightarrow> state \<Rightarrow> unit result \<times> state" where
  "DialURL_request url = (\<lambda>(m, w).
     if Scheme url \<noteq> scheme m then (Fail ErrUnsupportedScheme, (m, w))
     else
       andThen start
       (\<lambda>_. andThen (setBandwidth url)
       (\<lambda>_. andThen (\<lambda>(m, w).
          if scheme m = ''varahf''
          then (if Params_Get (Params url) ''p2p'' = ''true''
                then writeCmd ''P2P SESSION'' (m, w)
                else writeCmd ''WINLINK SESSION'' (m, w))
          else (Done (), (m, w)))
       (\<lambda>_ (m, w).
          let m1 = m\<lparr>toCall := Target url\<rparr> in
          writeCmd (''CONNECT '' @ myCall m1 @ '' '' @ toCall m1) (m1, w)))) (m, w))"

definition DialURL :: "URL \<Rightarrow> state \<Rightarrow> varaDataConn result \<times> state" where
  "DialURL url = andThen (DialURL_request url) (\<lambda>_. awaitConnect)"

definition Accept :: "state \<Rightarrow> varaDataConn result \<times> state" where
  "Accept = awaitConnect"

definition Listen :: "state \<Rightarrow> unit result \<times> state" where
  "Listen = andThen start (\<lambda>_. writeCmd ''LISTEN ON'')"

definition Listener_Addr :: "Modem \<Rightarrow> Addr" where
  "Listener_Addr m = \<lparr>addr_string = myCall m, addr_scheme = scheme m\<rparr>"

definition Busy :: "Modem \<Rightarrow> bool" where
  "Busy m = busy m"

definition SetPTT :: "nat option \<Rightarrow> Modem \<Rightarrow> Modem" where
  "SetPTT ptt m = m\<lparr>rig := ptt\<rparr>"

text \<open>The facade closes the copy of the session that it holds.\<close>

definition varaDataConn_Close :: "varaDataConn \<Rightarrow> World \<Rightarrow> unit result \<times> varaDataConn \<times> World" where
  "varaDataConn_Close v w =
     (case Close (modem v, w) of (r, (m', w')) \<Rightarrow> (r, (v\<lparr>modem := m'\<rparr>, w')))"

definition LocalAddr :: "varaDataConn \<Rightarrow> Addr" where
  "LocalAddr v = \<lparr>addr_string = myCall (modem v), addr_scheme = scheme (modem v)\<rparr>"


section \<open>Sessions and worlds used in the examples\<close>

text \<open>A network in which every host resolves and every port accepts the connection.\<close>

definition anyHost :: "string \<Rightarrow> bool" where
  "anyHost h = True"

definition anyPort :: "string \<Rightarrow> int \<Rightarrow> bool" where
  "anyPort h p = True"

definition liveWorld :: World where
  "liveWorld = initWorld anyHost anyPort"

definition hfSession :: Modem where
  "hfSession = NewModem ''varahf'' ''W1AW'' \<lparr>Host = [], CmdPort = 0, DataPort = 0\<rparr>"

text \<open>
  The modem program can be reached on both ports of the configuration: the host resolves,
  the two ports are port numbers, and both accept the connection.
\<close>

definition netUp :: "Modem \<Rightarrow> World \<Rightarrow> bool" where
  "netUp m w =
     (resolvable w (Host (config m))
      \<and> 0 \<le> CmdPort (config m) \<and> CmdPort (config m) \<le> 65535
      \<and> 0 \<le> DataPort (config m) \<and> DataPort (config m) \<le> 65535
      \<and> accepting w (Host (config m)) (CmdPort (config m))
      \<and> accepting w (Host (config m)) (DataPort (config m)))"

text \<open>The commands that \<open>start\<close> and \<open>DialURL\<close> write when nothing fails, read off the code.\<close>

definition startCmds :: "Modem \<Rightarrow> string list" where
  "startCmds m =
     [''PUBLIC ON''] @ (if scheme m = ''varahf'' then [''CWID ON''] else [])
     @ [''COMPRESSION TEXT'', ''MYCALL '' @ myCall m]"

definition dialCmds :: "URL \<Rightarrow> Modem \<Rightarrow> string list" where
  "dialCmds url m =
     startCmds m
     @ (if Params_Get (Params url) ''bw'' = [] then []
        else [''BW'' @ Params_Get (Params url) ''bw''])
     @ (if scheme m = ''varahf''
        then [if Params_Get (Params url) ''p2p'' = ''true'' then ''P2P SESSION''
              else ''WINLINK SESSION'']
        else [])
     @ [''CONNECT '' @ myCall m @ '' '' @ Target url]"

definition url1000 :: URL where
  "url1000 = \<lparr>Scheme = ''varahf'', Target = ''N0CALL'', Params = [(''bw'', [''1000''])]\<rparr>"

definition url2300 :: URL where
  "url2300 = \<lparr>Scheme = ''varahf'', Target = ''N0CALL'', Params = [(''bw'', [''2300''])]\<rparr>"

text \<open>
  States reached in the examples: after \<open>Listen\<close>; after \<open>Listen\<close> and an inbound
  CONNECTED line that nobody has received yet; the same with the channel reported busy;
  and after a dial that the modem has answered with CONNECTED.
\<close>

definition listeningState :: state where
  "listeningState = snd (Listen (hfSession, liveWorld))"

definition inboundState :: state where
  "inboundState = snd (handleCmd ''CONNECTED REMOTE1'' listeningState)"


definition dialledState :: state where
  "dialledState =
     snd (awaitConnect (snd (handleCmd ''CONNECTED N0CALL''
       (snd (DialURL url2300 (hfSession, liveWorld))))))"

text \<open>
  The state after the dial and the answer CONNECTED of the modem, before the wait of the
  dial goes on, and the facade that the dial then returns.
\<close>

definition answeredState :: state where
  "answeredState =
     snd (handleCmd ''CONNECTED N0CALL'' (snd (DialURL url2300 (hfSession, liveWorld))))"


definition dialledFacade :: varaDataConn where
  "dialledFacade = \<lparr>TCPConn_of = 1, modem = fst dialledState\<rparr>"

section \<open>Sequences of operations on one session\<close>

text \<open>
  What the caller and the reader can do to the session. There are the whole operations, as
  they run when nothing else acts in between, and the statements they are made of: the
  statements of \<open>start\<close>, any single \<open>writeCmd\<close>, the bandwidth command and the assignment
  of \<open>toCall\<close> of \<open>DialURL\<close>, the pieces of \<open>Close\<close>, the assignments and the teardown
  statements of \<open>handleDisconnect\<close>, and the continuations of the parked handlers. So a
  sequence can let the reader, which \<open>start\<close> spawns after it has opened the command
  connection, handle a line between two statements of the caller. The \<open>Close\<close> of any
  facade works on the copy of the session in the facade and on the shared world. \<open>exec\<close>
  gives the state in which a step leaves the session and the world, whether it returns,
  fails, panics or stays parked; \<open>run\<close> performs a sequence of steps.
\<close>

datatype op =
    OpStart
  | OpStartCmd
  | OpStartSpawn
  | OpStartData
  | OpStartBusy
  | OpWriteCmd string
  | OpSetBandwidth URL
  | OpSetToCall string
  | OpListen
  | OpDialURL URL
  | OpAccept
  | OpClose
  | OpCloseRequest
  | OpCloseSelect
  | OpCloseTeardown
  | OpSendPTT bool
  | OpSetLastState connectedState
  | OpCloseData
  | OpCloseCmd
  | OpClearCall
  | OpHandleCmd string
  | OpCmdListen "reading list"
  | OpResumeDisconnect
  | OpResumeConnect
  | OpSetPTT "nat option"
  | OpFacadeClose varaDataConn

fun exec :: "op \<Rightarrow> state \<Rightarrow> state" where
  "exec OpStart s = snd (start s)"
| "exec OpStartCmd s = snd (start_cmd s)"
| "exec OpStartSpawn s = snd (start_spawn s)"
| "exec OpStartData s = snd (start_data s)"
| "exec OpStartBusy s = snd (start_busy s)"
| "exec (OpWriteCmd c) s = snd (writeCmd c s)"
| "exec (OpSetBandwidth url) s = snd (setBandwidth url s)"
| "exec (OpSetToCall t) s = ((fst s)\<lparr>toCall := t\<rparr>, snd s)"
| "exec OpListen s = snd (Listen s)"
| "exec (OpDialURL url) s = snd (DialURL url s)"
| "exec OpAccept s = snd (Accept s)"
| "exec OpClose s = snd (Close s)"
| "exec OpCloseRequest s = snd (Close_request s)"
| "exec OpCloseSelect s = snd (Close_select s)"
| "exec OpCloseTeardown s = snd (Close_teardown s)"
| "exec (OpSendPTT on) s = snd (sendPTT on s)"
| "exec (OpSetLastState st) s = ((fst s)\<lparr>lastState := st\<rparr>, snd s)"
| "exec OpCloseData s =
     ((fst s)\<lparr>dataConn := fst (disconnectTCP (dataConn (fst s)) (snd s))\<rparr>,
      snd (disconnectTCP (dataConn (fst s)) (snd s)))"
| "exec OpCloseCmd s =
     ((fst s)\<lparr>cmdConn := fst (disconnectTCP (cmdConn (fst s)) (snd s))\<rparr>,
      snd (disconnectTCP (cmdConn (fst s)) (snd s)))"
| "exec OpClearCall s = ((fst s)\<lparr>toCall := [], busy := False\<rparr>, snd s)"
| "exec (OpHandleCmd c) s = snd (handleCmd c s)"
| "exec (OpCmdListen rs) s = snd (cmdListen rs s)"
| "exec OpResumeDisconnect s = snd (handleDisconnect_resume s)"
| "exec OpResumeConnect s = snd (send connected s)"
| "exec (OpSetPTT r) s = (SetPTT r (fst s), snd s)"
| "exec (OpFacadeClose v) s = (fst s, snd (snd (varaDataConn_Close v (snd s))))"

definition run :: "op list \<Rightarrow> state \<Rightarrow> state" where
  "run ops s = fold exec ops s"


text \<open>An operation keeps a property of the session.\<close>

definition keeps :: "(Modem \<Rightarrow> bool) \<Rightarrow> (state \<Rightarrow> 'a result \<times> state) \<Rightarrow> bool" where
  "keeps P f = (\<forall>s. P (fst s) \<longrightarrow> P (fst (snd (f s))))"

section \<open>Starting and dialling\<close>

lemma netUp_live [simp]: "netUp hfSession liveWorld"
  by (simp add: netUp_def liveWorld_def initWorld_def anyHost_def anyPort_def hfSession_def
      NewModem_def mergeConfig_def defaultConfig_def)

lemma hfSession_fields [simp]:
  "scheme hfSession = ''varahf''" "myCall hfSession = ''W1AW''"
  "cmdConn hfSession = None" "dataConn hfSession = None" "toCall hfSession = []"
  "lastState hfSession = disconnected" "rig hfSession = None" "busy hfSession = False"
  by (simp_all add: hfSession_def NewModem_def)

lemma liveWorld_fields [simp]:
  "fresh liveWorld = 0" "slot liveWorld = None" "keyed liveWorld = []"
  "logs liveWorld = []" "now liveWorld = 0" "readers liveWorld = 0"
  "conns liveWorld p = \<lparr>closed = True, broken = False, wrote = []\<rparr>"
  by (simp_all add: liveWorld_def initWorld_def)

lemma start_new:
  assumes "cmdConn m = None" "dataConn m = None" "netUp m w"
  shows "start (m, w) =
    (Done (),
     (m\<lparr>cmdConn := Some (fresh w), dataConn := Some (Suc (fresh w)), busy := False\<rparr>,
      w\<lparr>conns := (conns w)
           (fresh w := \<lparr>closed = False, broken = False,
                         wrote = map (\<lambda>c. c @ [CR]) (startCmds m)\<rparr>,
            Suc (fresh w) := \<lparr>closed = False, broken = False, wrote = []\<rparr>),
         fresh := Suc (Suc (fresh w)), readers := Suc (readers w)\<rparr>))"
  using assms
  by (simp add: start_def start_cmd_def start_spawn_def start_data_def start_busy_def
      start_cwid_def start_mycall_def andThen_def connectTCP_def writeCmd_def startCmds_def
      fun_upd_twist netUp_def)

lemma DialURL_request_new:
  assumes "Scheme url = scheme m" "cmdConn m = None" "dataConn m = None" "netUp m w"
    and "Params_Get (Params url) ''bw'' = []
         \<or> contains bandwidths (Params_Get (Params url) ''bw'')"
  shows "DialURL_request url (m, w) =
    (Done (),
     (m\<lparr>cmdConn := Some (fresh w), dataConn := Some (Suc (fresh w)), busy := False,
        toCall := Target url\<rparr>,
      w\<lparr>conns := (conns w)
           (fresh w := \<lparr>closed = False, broken = False,
                         wrote = map (\<lambda>c. c @ [CR]) (dialCmds url m)\<rparr>,
            Suc (fresh w) := \<lparr>closed = False, broken = False, wrote = []\<rparr>),
         fresh := Suc (Suc (fresh w)), readers := Suc (readers w)\<rparr>))"
  using assms(1,5)
  by (auto simp add: DialURL_request_def start_new[OF assms(2,3,4)] andThen_def
      setBandwidth_def writeCmd_def dialCmds_def Let_def fun_upd_twist
      intro!: World.equality)

lemma awaitConnect_empty: "slot w = None \<Longrightarrow> awaitConnect (m, w) = (Parked, (m, w))"
  by (simp add: awaitConnect_def andThen_def recv_def)

lemma awaitConnect_connected:
  "slot w = Some connected \<Longrightarrow> dataConn m = Some p \<Longrightarrow>
   awaitConnect (m, w) = (Done \<lparr>TCPConn_of = p, modem = m\<rparr>, (m, w\<lparr>slot := None\<rparr>))"
  by (simp add: awaitConnect_def andThen_def recv_def)

lemma CONNECTED_not_exact:
  assumes "HasPrefix c ''CONNECTED''"
  shows "c \<noteq> ''PTT ON''" "c \<noteq> ''PTT OFF''" "c \<noteq> ''BUSY ON''" "c \<noteq> ''BUSY OFF''"
    "c \<noteq> ''OK''" "c \<noteq> ''IAMALIVE''" "c \<noteq> ''PENDING''" "c \<noteq> ''DISCONNECTED''"
  using assms by (auto simp add: HasPrefix_def)

lemma handleCmd_CONNECTED:
  "HasPrefix c ''CONNECTED'' \<Longrightarrow>
   handleCmd c s = andThen handleConnect (\<lambda>_ s'. (Done True, s')) s"
  by (cases s) (simp add: handleCmd_def CONNECTED_not_exact)

lemma handleCmd_CONNECTED_empty:
  "HasPrefix c ''CONNECTED'' \<Longrightarrow> slot w = None \<Longrightarrow>
   handleCmd c (m, w) = (Done True, (m\<lparr>lastState := connected\<rparr>, w\<lparr>slot := Some connected\<rparr>))"
  by (simp add: handleCmd_CONNECTED handleConnect_def send_def andThen_def)

lemma awaitConnect_keeps_conns:
  "conns (snd (snd (awaitConnect s))) = conns (snd s)"
  by (cases s) (simp add: awaitConnect_def andThen_def recv_def split: option.splits)

lemma DialURL_bad_bw:
  assumes "Scheme url = scheme m" "Params_Get (Params url) ''bw'' \<noteq> []" "\<not> contains bandwidths (Params_Get (Params url) ''bw'')"
  shows "DialURL url (m, w) = andThen start (\<lambda>_ s. (Fail (ErrBandwidth (Params_Get (Params url) ''bw'')), s)) (m, w)"
  using assms
  by (simp add: DialURL_def DialURL_request_def andThen_def setBandwidth_def Let_def split: prod.splits result.splits)

lemma url_fields [simp]:
  "Scheme url1000 = ''varahf''" "Target url1000 = ''N0CALL''" "Params_Get (Params url1000) ''bw'' = ''1000''"
  "Params_Get (Params url1000) ''p2p'' = []"
  "Scheme url2300 = ''varahf''" "Target url2300 = ''N0CALL''" "Params_Get (Params url2300) ''bw'' = ''2300''"
  "Params_Get (Params url2300) ''p2p'' = []"
  by (simp_all add: url1000_def url2300_def Params_Get_def)

lemma start_live:
  "start (hfSession, liveWorld) =
    (Done (),
     (hfSession\<lparr>cmdConn := Some 0, dataConn := Some (Suc 0), busy := False\<rparr>,
      liveWorld\<lparr>conns := (conns liveWorld)
           (0 := \<lparr>closed = False, broken = False,
                         wrote = [''PUBLIC ON'' @ [CR], ''CWID ON'' @ [CR], ''COMPRESSION TEXT'' @ [CR], ''MYCALL W1AW'' @ [CR]]\<rparr>,
            Suc 0 := \<lparr>closed = False, broken = False, wrote = []\<rparr>),
         fresh := Suc (Suc 0), readers := Suc 0\<rparr>))"
  using start_new [of hfSession liveWorld] by (simp add: startCmds_def)

text \<open>
  C9. A dial whose URL scheme is not the scheme of the session fails with the
  unsupported-scheme error at once: the session and the world (connections, channel,
  commands written) are exactly as before.
\<close>

theorem DialURL_wrong_scheme:
  "Scheme url \<noteq> scheme m \<Longrightarrow> DialURL url (m, w) = (Fail ErrUnsupportedScheme, (m, w))"
  by (simp add: DialURL_def DialURL_request_def andThen_def)

theorem DialURL_wrong_scheme_witness:
  "Scheme \<lparr>Scheme = ''varafm'', Target = ''N0CALL'', Params = []\<rparr> \<noteq> scheme hfSession
   \<and> DialURL \<lparr>Scheme = ''varafm'', Target = ''N0CALL'', Params = []\<rparr> (hfSession, liveWorld)
       = (Fail ErrUnsupportedScheme, (hfSession, liveWorld))"
  using DialURL_wrong_scheme
    [of "\<lparr>Scheme = ''varafm'', Target = ''N0CALL'', Params = []\<rparr>" hfSession liveWorld]
  by simp

text \<open>
  C1, as the claim states it, fails. \<open>DialURL\<close> calls \<open>start\<close> before it looks at the
  bandwidth: with the unsupported bandwidth 1000 on a new session the dial does fail with
  the bandwidth error, but by then both connections are open and the four commands of
  \<open>start\<close> have been written to the command connection.
\<close>

theorem dial_unsupported_bw_counterexample:
  "fst (DialURL url1000 (hfSession, liveWorld)) = Fail (ErrBandwidth ''1000'')
   \<and> fresh (snd (snd (DialURL url1000 (hfSession, liveWorld)))) = 2
   \<and> cmdConn (fst (snd (DialURL url1000 (hfSession, liveWorld)))) = Some 0
   \<and> dataConn (fst (snd (DialURL url1000 (hfSession, liveWorld)))) = Some 1
   \<and> closed (conns liveWorld 0)
   \<and> \<not> closed (conns (snd (snd (DialURL url1000 (hfSession, liveWorld)))) 0)
   \<and> \<not> closed (conns (snd (snd (DialURL url1000 (hfSession, liveWorld)))) 1)
   \<and> wrote (conns (snd (snd (DialURL url1000 (hfSession, liveWorld)))) 0)
       = [''PUBLIC ON'' @ [CR], ''CWID ON'' @ [CR], ''COMPRESSION TEXT'' @ [CR], ''MYCALL W1AW'' @ [CR]]"
  by (simp add: DialURL_bad_bw bandwidths_def andThen_def start_live)

text \<open>
  C1, amended. When the scheme matches: for a bandwidth that is given and not in the
  supported list, the dial is \<open>start\<close> followed by the bandwidth error, so it writes no BW,
  session or CONNECT command, but whatever \<open>start\<close> opens and writes has happened; for a
  supported bandwidth, on a session without connections and with the modem program
  reachable, the commands written to the new command connection are those of \<open>start\<close>,
  then BW with the value, then the session command of the HF variant, then CONNECT.
\<close>

theorem dial_bandwidth:
  assumes "Scheme url = scheme m"
  shows "(Params_Get (Params url) ''bw'' \<noteq> [] \<and> \<not> contains bandwidths (Params_Get (Params url) ''bw'')
          \<longrightarrow> DialURL url (m, w)
              = andThen start (\<lambda>_ s. (Fail (ErrBandwidth (Params_Get (Params url) ''bw'')), s)) (m, w))
       \<and> (contains bandwidths (Params_Get (Params url) ''bw'') \<and> cmdConn m = None \<and> dataConn m = None \<and> netUp m w
          \<longrightarrow> cmdConn (fst (snd (DialURL url (m, w)))) = Some (fresh w)
              \<and> wrote (conns (snd (snd (DialURL url (m, w)))) (fresh w))
                  = [''PUBLIC ON'' @ [CR]]
                    @ (if scheme m = ''varahf'' then [''CWID ON'' @ [CR]] else [])
                    @ [''COMPRESSION TEXT'' @ [CR], (''MYCALL '' @ myCall m) @ [CR],
                       (''BW'' @ Params_Get (Params url) ''bw'') @ [CR]]
                    @ (if scheme m = ''varahf''
                       then [if Params_Get (Params url) ''p2p'' = ''true''
                             then ''P2P SESSION'' @ [CR] else ''WINLINK SESSION'' @ [CR]]
                       else [])
                    @ [(''CONNECT '' @ myCall m @ '' '' @ Target url) @ [CR]])"
proof (intro conjI impI)
  assume "Params_Get (Params url) ''bw'' \<noteq> [] \<and> \<not> contains bandwidths (Params_Get (Params url) ''bw'')"
  then show "DialURL url (m, w)
              = andThen start (\<lambda>_ s. (Fail (ErrBandwidth (Params_Get (Params url) ''bw'')), s)) (m, w)"
    using assms by (simp add: DialURL_bad_bw)
next
  assume h: "contains bandwidths (Params_Get (Params url) ''bw'') \<and> cmdConn m = None \<and> dataConn m = None \<and> netUp m w"
  then have req: "DialURL_request url (m, w) =
    (Done (),
     (m\<lparr>cmdConn := Some (fresh w), dataConn := Some (Suc (fresh w)), busy := False,
        toCall := Target url\<rparr>,
      w\<lparr>conns := (conns w)
           (fresh w := \<lparr>closed = False, broken = False,
                         wrote = map (\<lambda>c. c @ [CR]) (dialCmds url m)\<rparr>,
            Suc (fresh w) := \<lparr>closed = False, broken = False, wrote = []\<rparr>),
         fresh := Suc (Suc (fresh w)), readers := Suc (readers w)\<rparr>))"
    using assms by (simp add: DialURL_request_new)
  have ne: "Params_Get (Params url) ''bw'' \<noteq> []"
    using h by (auto simp add: bandwidths_def)
  have dial: "DialURL url (m, w) = awaitConnect (snd (DialURL_request url (m, w)))"
    by (simp add: DialURL_def andThen_def req)
  show "cmdConn (fst (snd (DialURL url (m, w)))) = Some (fresh w)"
    by (simp add: dial req awaitConnect_def andThen_def recv_def split: option.splits)
  have "wrote (conns (snd (snd (DialURL url (m, w)))) (fresh w)) = map (\<lambda>c. c @ [CR]) (dialCmds url m)"
    by (simp add: dial awaitConnect_keeps_conns) (simp add: req)
  also have "\<dots> = [''PUBLIC ON'' @ [CR]]
                    @ (if scheme m = ''varahf'' then [''CWID ON'' @ [CR]] else [])
                    @ [''COMPRESSION TEXT'' @ [CR], (''MYCALL '' @ myCall m) @ [CR],
                       (''BW'' @ Params_Get (Params url) ''bw'') @ [CR]]
                    @ (if scheme m = ''varahf''
                       then [if Params_Get (Params url) ''p2p'' = ''true''
                             then ''P2P SESSION'' @ [CR] else ''WINLINK SESSION'' @ [CR]]
                       else [])
                    @ [(''CONNECT '' @ myCall m @ '' '' @ Target url) @ [CR]]"
    using ne by (simp add: dialCmds_def startCmds_def)
  finally show "wrote (conns (snd (snd (DialURL url (m, w)))) (fresh w))
                  = [''PUBLIC ON'' @ [CR]]
                    @ (if scheme m = ''varahf'' then [''CWID ON'' @ [CR]] else [])
                    @ [''COMPRESSION TEXT'' @ [CR], (''MYCALL '' @ myCall m) @ [CR],
                       (''BW'' @ Params_Get (Params url) ''bw'') @ [CR]]
                    @ (if scheme m = ''varahf''
                       then [if Params_Get (Params url) ''p2p'' = ''true''
                             then ''P2P SESSION'' @ [CR] else ''WINLINK SESSION'' @ [CR]]
                       else [])
                    @ [(''CONNECT '' @ myCall m @ '' '' @ Target url) @ [CR]]" .
qed


theorem dial_bandwidth_witness:
  "Scheme url1000 = scheme hfSession
   \<and> Params_Get (Params url1000) ''bw'' \<noteq> []
   \<and> \<not> contains bandwidths (Params_Get (Params url1000) ''bw'')
   \<and> DialURL url1000 (hfSession, liveWorld)
       = (Fail (ErrBandwidth ''1000''), snd (start (hfSession, liveWorld)))
   \<and> Scheme url2300 = scheme hfSession
   \<and> contains bandwidths (Params_Get (Params url2300) ''bw'')
   \<and> cmdConn hfSession = None \<and> dataConn hfSession = None \<and> netUp hfSession liveWorld
   \<and> cmdConn (fst (snd (DialURL url2300 (hfSession, liveWorld)))) = Some 0
   \<and> wrote (conns (snd (snd (DialURL url2300 (hfSession, liveWorld)))) 0)
       = [''PUBLIC ON'' @ [CR], ''CWID ON'' @ [CR], ''COMPRESSION TEXT'' @ [CR],
          ''MYCALL W1AW'' @ [CR], ''BW2300'' @ [CR], ''WINLINK SESSION'' @ [CR],
          ''CONNECT W1AW N0CALL'' @ [CR]]"
  using dial_bandwidth [of url1000 hfSession liveWorld]
    dial_bandwidth [of url2300 hfSession liveWorld]
  by (simp add: bandwidths_def andThen_def start_live)

section \<open>Disconnecting\<close>

lemma disconnectTCP_frame [simp]:
  "fst (disconnectTCP q w) = None"
  "slot (snd (disconnectTCP q w)) = slot w"
  "keyed (snd (disconnectTCP q w)) = keyed w"
  "logs (snd (disconnectTCP q w)) = logs w"
  "now (snd (disconnectTCP q w)) = now w"
  "fresh (snd (disconnectTCP q w)) = fresh w"
  "readers (snd (disconnectTCP q w)) = readers w"
  "resolvable (snd (disconnectTCP q w)) = resolvable w"
  "accepting (snd (disconnectTCP q w)) = accepting w"
  "wrote (conns (snd (disconnectTCP q w)) p) = wrote (conns w p)"
  "broken (conns (snd (disconnectTCP q w)) p) = broken (conns w p)"
  "closed (conns (snd (disconnectTCP q w)) p) = (closed (conns w p) \<or> q = Some p)"
  by (auto simp add: disconnectTCP_def split: option.splits)

lemma handleDisconnect_empty:
  "slot w = None \<Longrightarrow>
   handleDisconnect (m, w) =
     (Done (),
      (m\<lparr>lastState := disconnected, dataConn := None, cmdConn := None, toCall := [],
         busy := False\<rparr>,
       snd (disconnectTCP (cmdConn m)
              (snd (disconnectTCP (dataConn m) (w\<lparr>slot := Some disconnected\<rparr>))))))"
  by (simp add: handleDisconnect_def handleDisconnect_resume_def handleDisconnect_teardown_def
      andThen_def send_def split_beta Let_def)

lemma handleDisconnect_full:
  "slot w = Some v \<Longrightarrow>
   handleDisconnect (m, w) = (Parked, (m\<lparr>lastState := disconnected\<rparr>, w))"
  by (simp add: handleDisconnect_def handleDisconnect_resume_def andThen_def send_def)

lemma handleCmd_DISCONNECTED:
  "handleCmd ''DISCONNECTED'' s = andThen handleDisconnect (\<lambda>_ s'. (Done False, s')) s"
  by (cases s) (simp add: handleCmd_def)


section \<open>The states of the examples\<close>

lemma listeningState_eq:
  "listeningState =
     (hfSession\<lparr>cmdConn := Some 0, dataConn := Some (Suc 0), busy := False\<rparr>,
      liveWorld\<lparr>conns := (conns liveWorld)
           (0 := \<lparr>closed = False, broken = False,
                   wrote = [''PUBLIC ON'' @ [CR], ''CWID ON'' @ [CR], ''COMPRESSION TEXT'' @ [CR],
                            ''MYCALL W1AW'' @ [CR], ''LISTEN ON'' @ [CR]]\<rparr>,
            Suc 0 := \<lparr>closed = False, broken = False, wrote = []\<rparr>),
         fresh := Suc (Suc 0), readers := Suc 0\<rparr>)"
  by (auto simp add: listeningState_def Listen_def andThen_def start_live writeCmd_def
      fun_upd_twist intro!: World.equality)


lemma inboundState_eq:
  "inboundState =
     (hfSession\<lparr>cmdConn := Some 0, dataConn := Some (Suc 0), busy := False,
        lastState := connected\<rparr>,
      liveWorld\<lparr>conns := (conns liveWorld)
           (0 := \<lparr>closed = False, broken = False,
                   wrote = [''PUBLIC ON'' @ [CR], ''CWID ON'' @ [CR], ''COMPRESSION TEXT'' @ [CR],
                            ''MYCALL W1AW'' @ [CR], ''LISTEN ON'' @ [CR]]\<rparr>,
            Suc 0 := \<lparr>closed = False, broken = False, wrote = []\<rparr>),
         fresh := Suc (Suc 0), readers := Suc 0, slot := Some connected\<rparr>)"
  by (auto simp add: inboundState_def listeningState_eq handleCmd_CONNECTED_empty HasPrefix_def
      intro!: World.equality)


lemma dialledState_eq:
  "dialledState =
     (hfSession\<lparr>cmdConn := Some 0, dataConn := Some (Suc 0), busy := False,
        toCall := ''N0CALL'', lastState := connected\<rparr>,
      liveWorld\<lparr>conns := (conns liveWorld)
           (0 := \<lparr>closed = False, broken = False,
                   wrote = [''PUBLIC ON'' @ [CR], ''CWID ON'' @ [CR], ''COMPRESSION TEXT'' @ [CR],
                            ''MYCALL W1AW'' @ [CR], ''BW2300'' @ [CR], ''WINLINK SESSION'' @ [CR],
                            ''CONNECT W1AW N0CALL'' @ [CR]]\<rparr>,
            Suc 0 := \<lparr>closed = False, broken = False, wrote = []\<rparr>),
         fresh := Suc (Suc 0), readers := Suc 0\<rparr>)"
proof -
  have req: "DialURL_request url2300 (hfSession, liveWorld) =
    (Done (),
     (hfSession\<lparr>cmdConn := Some 0, dataConn := Some (Suc 0), busy := False,
        toCall := ''N0CALL''\<rparr>,
      liveWorld\<lparr>conns := (conns liveWorld)
           (0 := \<lparr>closed = False, broken = False,
                   wrote = map (\<lambda>c. c @ [CR]) (dialCmds url2300 hfSession)\<rparr>,
            Suc 0 := \<lparr>closed = False, broken = False, wrote = []\<rparr>),
         fresh := Suc (Suc 0), readers := Suc 0\<rparr>))"
    using DialURL_request_new [of url2300 hfSession liveWorld]
    by (simp add: bandwidths_def)
  have pre: "HasPrefix ''CONNECTED N0CALL'' ''CONNECTED''"
    by (simp add: HasPrefix_def)
  show ?thesis
    by (auto simp add: dialledState_def DialURL_def andThen_def req awaitConnect_empty
        handleCmd_CONNECTED_empty [OF pre] awaitConnect_connected dialCmds_def startCmds_def
        intro!: World.equality)
qed









section \<open>Closing\<close>

lemma sendPTT_result:
  "sendPTT on (m, w) =
     (Done (), (m, w\<lparr>keyed := keyed w @ (case rig m of None \<Rightarrow> [] | Some r \<Rightarrow> [(r, on)])\<rparr>))"
  by (simp add: sendPTT_def split: option.splits)

lemma Close_teardown_empty:
  "slot w = None \<Longrightarrow>
   Close_teardown (m, w) =
     (Done (),
      (m\<lparr>lastState := disconnected, dataConn := None, cmdConn := None, toCall := [],
         busy := False\<rparr>,
       snd (disconnectTCP (cmdConn m)
              (snd (disconnectTCP (dataConn m)
                 (w\<lparr>keyed := keyed w @ (case rig m of None \<Rightarrow> [] | Some r \<Rightarrow> [(r, False)]),
                    slot := Some disconnected\<rparr>))))))"
  by (simp add: Close_teardown_def andThen_def sendPTT_result handleDisconnect_empty)

lemma Close_teardown_full:
  "slot w = Some v \<Longrightarrow>
   Close_teardown (m, w) =
     (Parked,
      (m\<lparr>lastState := disconnected\<rparr>,
       w\<lparr>keyed := keyed w @ (case rig m of None \<Rightarrow> [] | Some r \<Rightarrow> [(r, False)])\<rparr>))"
  by (simp add: Close_teardown_def andThen_def sendPTT_result handleDisconnect_full)

lemma writeCmd_ok:
  "cmdConn m = Some p \<Longrightarrow> \<not> closed (conns w p) \<Longrightarrow> \<not> broken (conns w p) \<Longrightarrow>
   writeCmd cmd (m, w) =
     (Done (), (m, w\<lparr>conns := (conns w)(p := (conns w p)\<lparr>wrote := wrote (conns w p) @ [cmd @ [CR]]\<rparr>)\<rparr>))"
  by (simp add: writeCmd_def)

text \<open>
  C7, as the claim states it, fails: \<open>Close\<close> ends with \<open>handleDisconnect\<close>, which sends
  disconnected into the channel. On a new session the first \<open>Close\<close> returns without
  error and leaves that value in the slot; a second \<open>Close\<close> is then parked on its send
  and does not return.
\<close>

theorem Close_twice_counterexample:
  "lastState hfSession = disconnected
   \<and> slot liveWorld = None
   \<and> fst (Close (hfSession, liveWorld)) = Done ()
   \<and> slot (snd (snd (Close (hfSession, liveWorld)))) = Some disconnected
   \<and> lastState (fst (snd (Close (hfSession, liveWorld)))) = disconnected
   \<and> fst (Close (snd (Close (hfSession, liveWorld)))) = Parked"
  by (simp add: Close_def Close_teardown_empty Close_teardown_full)

text \<open>
  C7, amended. \<open>Close\<close> on a session whose state is disconnected writes no command and
  leaves the state disconnected. With the channel empty it returns without error, after
  the PTT-off signal (when a controller is set) and the teardown of the two handles, and it
  leaves disconnected in the channel, so that a \<open>Close\<close> right after it is parked. With
  the channel full it is parked itself, after the PTT-off signal.
\<close>

theorem Close_while_disconnected:
  assumes "lastState m = disconnected"
  shows "(slot w = None \<longrightarrow>
           (\<exists>m' w'. Close (m, w) = (Done (), (m', w'))
              \<and> lastState m' = disconnected
              \<and> cmdConn m' = None \<and> dataConn m' = None \<and> toCall m' = [] \<and> \<not> busy m'
              \<and> (\<forall>p. wrote (conns w' p) = wrote (conns w p))
              \<and> keyed w' = keyed w @ (case rig m of None \<Rightarrow> [] | Some r \<Rightarrow> [(r, False)])
              \<and> slot w' = Some disconnected
              \<and> fst (Close (m', w')) = Parked))
       \<and> (slot w \<noteq> None \<longrightarrow>
           fst (Close (m, w)) = Parked
           \<and> lastState (fst (snd (Close (m, w)))) = disconnected
           \<and> (\<forall>p. wrote (conns (snd (snd (Close (m, w)))) p) = wrote (conns w p))
           \<and> keyed (snd (snd (Close (m, w))))
               = keyed w @ (case rig m of None \<Rightarrow> [] | Some r \<Rightarrow> [(r, False)]))"
  using assms
  by (auto simp add: Close_def Close_teardown_empty Close_teardown_full)

theorem Close_while_disconnected_witness:
  "lastState hfSession = disconnected
   \<and> slot liveWorld = None
   \<and> (\<exists>m' w'. Close (hfSession, liveWorld) = (Done (), (m', w'))
              \<and> lastState m' = disconnected
              \<and> cmdConn m' = None \<and> dataConn m' = None \<and> toCall m' = [] \<and> \<not> busy m'
              \<and> (\<forall>p. wrote (conns w' p) = wrote (conns liveWorld p))
              \<and> keyed w' = keyed liveWorld @ (case rig hfSession of None \<Rightarrow> [] | Some r \<Rightarrow> [(r, False)])
              \<and> slot w' = Some disconnected
              \<and> fst (Close (m', w')) = Parked)
   \<and> slot (snd inboundState) \<noteq> None
   \<and> fst (Close ((fst inboundState)\<lparr>lastState := disconnected\<rparr>, snd inboundState)) = Parked"
  using Close_while_disconnected [of hfSession liveWorld]
    Close_while_disconnected [of "(fst inboundState)\<lparr>lastState := disconnected\<rparr>" "snd inboundState"]
  by (simp add: inboundState_eq)

text \<open>
  C6. \<open>Close\<close> on a connected session whose command connection is open and working
  first writes DISCONNECT. When the channel is still empty at the end of the wait, the
  timer of ten seconds has fired and ABORT is written after DISCONNECT; when the channel
  gives connected, ABORT is written too, without the wait; when it gives disconnected, no
  ABORT is written. In each case \<open>Close\<close> then returns without error.
\<close>

theorem Close_connected_escalates:
  assumes "lastState m = connected" "cmdConn m = Some p"
    and "\<not> closed (conns w p)" "\<not> broken (conns w p)"
  shows "Close_request (m, w)
           = (Done (), (m, w\<lparr>conns := (conns w)(p := (conns w p)\<lparr>wrote := wrote (conns w p) @ [''DISCONNECT'' @ [CR]]\<rparr>)\<rparr>))
       \<and> (slot w = None \<longrightarrow>
            fst (Close (m, w)) = Done ()
            \<and> wrote (conns (snd (snd (Close (m, w)))) p)
                = wrote (conns w p) @ [''DISCONNECT'' @ [CR], ''ABORT'' @ [CR]]
            \<and> now (snd (snd (Close (m, w)))) = now w + 10)
       \<and> (slot w = Some connected \<longrightarrow>
            fst (Close (m, w)) = Done ()
            \<and> wrote (conns (snd (snd (Close (m, w)))) p)
                = wrote (conns w p) @ [''DISCONNECT'' @ [CR], ''ABORT'' @ [CR]]
            \<and> now (snd (snd (Close (m, w)))) = now w)
       \<and> (slot w = Some disconnected \<longrightarrow>
            fst (Close (m, w)) = Done ()
            \<and> wrote (conns (snd (snd (Close (m, w)))) p)
                = wrote (conns w p) @ [''DISCONNECT'' @ [CR]]
            \<and> now (snd (snd (Close (m, w)))) = now w)"
  using assms
  by (auto simp add: Close_def Close_request_def Close_select_def andThen_def writeCmd_ok
      logPrint_def Close_teardown_empty)

theorem Close_connected_escalates_witness:
  "lastState (fst dialledState) = connected \<and> cmdConn (fst dialledState) = Some 0
   \<and> \<not> closed (conns (snd dialledState) 0) \<and> \<not> broken (conns (snd dialledState) 0)
   \<and> slot (snd dialledState) = None
   \<and> fst (Close (fst dialledState, snd dialledState)) = Done ()
   \<and> wrote (conns (snd (snd (Close (fst dialledState, snd dialledState)))) 0)
       = wrote (conns (snd dialledState) 0) @ [''DISCONNECT'' @ [CR], ''ABORT'' @ [CR]]
   \<and> now (snd (snd (Close (fst dialledState, snd dialledState)))) = now (snd dialledState) + 10
   \<and> slot (snd inboundState) = Some connected
   \<and> wrote (conns (snd (snd (Close (fst inboundState, snd inboundState)))) 0)
       = wrote (conns (snd inboundState) 0) @ [''DISCONNECT'' @ [CR], ''ABORT'' @ [CR]]"
  using Close_connected_escalates [of "fst dialledState" 0 "snd dialledState"]
    Close_connected_escalates [of "fst inboundState" 0 "snd inboundState"]
  by (simp add: dialledState_eq inboundState_eq)

section \<open>The dispatcher and the reader\<close>







section \<open>What every step keeps\<close>

lemma keepsD: "keeps P f \<Longrightarrow> P (fst s) \<Longrightarrow> P (fst (snd (f s)))"
  unfolding keeps_def by blast

lemma keeps_andThen:
  assumes "keeps P f" "\<And>x. keeps P (g x)"
  shows "keeps P (andThen f g)"
  unfolding keeps_def
proof (intro allI impI)
  fix s :: state assume p: "P (fst s)"
  obtain r s' where fs: "f s = (r, s')" by (cases "f s")
  have p': "P (fst s')" using keepsD [OF assms(1), of s] p fs by simp
  show "P (fst (snd (andThen f g s)))"
  proof (cases r)
    case (Done x)
    then show ?thesis using keepsD [OF assms(2) [of x], of s'] p' fs by (simp add: andThen_def)
  qed (use p' fs in \<open>simp_all add: andThen_def\<close>)
qed


lemma writeCmd_frame [simp]: "fst (snd (writeCmd c s)) = fst s"
  by (cases s) (simp add: writeCmd_def split: option.splits)

lemma sendPTT_frame [simp]: "fst (snd (sendPTT b s)) = fst s"
  by (cases s) (simp add: sendPTT_def split: option.splits)

lemma send_frame [simp]: "fst (snd (send v s)) = fst s"
  by (cases s) (simp add: send_def split: option.splits)

lemma recv_frame [simp]: "fst (snd (recv s)) = fst s"
  by (cases s) (simp add: recv_def split: option.splits)

lemma logPrint_frame [simp]: "fst (snd (logPrint msg s)) = fst s"
  by (cases s) (simp add: logPrint_def)

lemma connectTCP_frame [simp]: "fst (snd (connectTCP name port s)) = fst s"
  by (cases s) (simp add: connectTCP_def)

lemma keeps_writeCmd: "keeps P (writeCmd c)"
  by (simp add: keeps_def)



lemma keeps_logPrint: "keeps P (logPrint msg)"
  by (simp add: keeps_def)

lemma keeps_Close_request: "keeps P Close_request"
  by (simp add: keeps_def Close_request_def split_beta)

lemma keeps_Close_select: "keeps P Close_select"
proof -
  have a: "keeps P (andThen (logPrint msg) (\<lambda>_. writeCmd c))" for msg c
    by (intro keeps_andThen keeps_logPrint keeps_writeCmd)
  show ?thesis
    unfolding keeps_def
  proof (intro allI impI)
    fix s :: state assume "P (fst s)"
    then show "P (fst (snd (Close_select s)))"
      using keepsD [OF a, of "(fst s, (snd s)\<lparr>slot := None\<rparr>)"]
      by (cases s) (simp add: Close_select_def split: option.splits)
  qed
qed

lemma setBandwidth_frame [simp]: "fst (snd (setBandwidth url s)) = fst s"
  by (cases s) (simp add: setBandwidth_def Let_def)














text \<open>
  The two handles do not depend on each other: when the reader, spawned by \<open>start\<close> after
  the command connection is open, handles DISCONNECTED before \<open>start\<close> opens the data
  connection, the command handle is cleared and the data handle is set after it.
\<close>

lemma data_handle_without_command:
  "cmdConn (fst (run [OpStartCmd, OpStartSpawn, OpHandleCmd ''DISCONNECTED'', OpStartData]
                   (hfSession, liveWorld))) = None
   \<and> dataConn (fst (run [OpStartCmd, OpStartSpawn, OpHandleCmd ''DISCONNECTED'', OpStartData]
                   (hfSession, liveWorld))) = Some 1"
  using netUp_live
  by (simp add: run_def start_cmd_def start_spawn_def start_data_def andThen_def
      connectTCP_def netUp_def handleCmd_DISCONNECTED handleDisconnect_empty)




section \<open>The facade and the session\<close>

lemma answeredState_eq:
  "answeredState =
     (hfSession\<lparr>cmdConn := Some 0, dataConn := Some (Suc 0), busy := False,
        toCall := ''N0CALL'', lastState := connected\<rparr>,
      liveWorld\<lparr>conns := (conns liveWorld)
           (0 := \<lparr>closed = False, broken = False,
                   wrote = [''PUBLIC ON'' @ [CR], ''CWID ON'' @ [CR], ''COMPRESSION TEXT'' @ [CR],
                            ''MYCALL W1AW'' @ [CR], ''BW2300'' @ [CR], ''WINLINK SESSION'' @ [CR],
                            ''CONNECT W1AW N0CALL'' @ [CR]]\<rparr>,
            Suc 0 := \<lparr>closed = False, broken = False, wrote = []\<rparr>),
         fresh := Suc (Suc 0), readers := Suc 0, slot := Some connected\<rparr>)"
proof -
  have req: "DialURL_request url2300 (hfSession, liveWorld) =
    (Done (),
     (hfSession\<lparr>cmdConn := Some 0, dataConn := Some (Suc 0), busy := False,
        toCall := ''N0CALL''\<rparr>,
      liveWorld\<lparr>conns := (conns liveWorld)
           (0 := \<lparr>closed = False, broken = False,
                   wrote = map (\<lambda>c. c @ [CR]) (dialCmds url2300 hfSession)\<rparr>,
            Suc 0 := \<lparr>closed = False, broken = False, wrote = []\<rparr>),
         fresh := Suc (Suc 0), readers := Suc 0\<rparr>))"
    using DialURL_request_new [of url2300 hfSession liveWorld]
    by (simp add: bandwidths_def)
  have pre: "HasPrefix ''CONNECTED N0CALL'' ''CONNECTED''"
    by (simp add: HasPrefix_def)
  show ?thesis
    by (auto simp add: answeredState_def DialURL_def andThen_def req awaitConnect_empty
        handleCmd_CONNECTED_empty [OF pre] dialCmds_def startCmds_def
        intro!: World.equality)
qed

lemma awaitConnect_answered: "awaitConnect answeredState = (Done dialledFacade, dialledState)"
  by (auto simp add: answeredState_eq dialledState_eq dialledFacade_def awaitConnect_connected
      intro!: World.equality)

lemma Close_dialled_done: "fst (Close dialledState) = Done ()"
  by (simp add: dialledState_eq Close_def Close_request_def Close_select_def andThen_def
      writeCmd_ok Close_teardown_empty)

lemma Close_teardown_Done:
  "Close_teardown (m, w) = (Done (), (m', w')) \<Longrightarrow> slot w = None"
  by (cases "slot w") (simp_all add: Close_teardown_full)

lemma Close_Done:
  assumes "Close (m, w) = (Done (), (m', w'))"
  shows "\<exists>wX. Close_teardown (m, wX) = (Done (), (m', w'))"
proof (cases "lastState m = connected")
  case False
  then show ?thesis using assms by (auto simp add: Close_def)
next
  case True
  obtain r1 s1 where 1: "Close_request (m, w) = (r1, s1)" by (cases "Close_request (m, w)")
  obtain r2 s2 where 2: "Close_select s1 = (r2, s2)" by (cases "Close_select s1")
  have r1: "r1 = Done ()"
    using assms True 1 by (cases r1) (simp_all add: Close_def andThen_def)
  have r2: "r2 = Done ()"
    using assms True 1 2 r1 by (cases r2) (simp_all add: Close_def andThen_def)
  have "fst s1 = m"
    using keepsD [OF keeps_Close_request [of "\<lambda>x. x = m"], of "(m, w)"] 1 by simp
  then have "fst s2 = m"
    using keepsD [OF keeps_Close_select [of "\<lambda>x. x = m"], of s1] 2 by simp
  then have "Close_teardown (m, snd s2) = (Done (), (m', w'))"
    using assms True 1 2 r1 r2 by (cases s2) (simp add: Close_def andThen_def)
  then show ?thesis by blast
qed

text \<open>
  C10. The facade that the wait of \<open>DialURL\<close> or \<open>Accept\<close> returns holds a copy of the
  session as it is at that moment, and the data handle of the session. When \<open>Close\<close> on
  the facade returns, the teardown has run on the copy: the copy is disconnected, with no
  handles, no remote call sign and no busy flag. The session itself, whatever it is by
  then, has all its fields as before, although the connections that its handles point to
  are now closed and the shared channel holds disconnected.
\<close>

theorem facade_Close_on_copy:
  assumes "awaitConnect (m, w) = (Done v, (m1, w1))"
    and "varaDataConn_Close v w2 = (Done (), (v', w3))"
  shows "modem v = m1
       \<and> dataConn m1 = Some (TCPConn_of v)
       \<and> lastState (modem v') = disconnected
       \<and> cmdConn (modem v') = None \<and> dataConn (modem v') = None
       \<and> toCall (modem v') = [] \<and> \<not> busy (modem v')
       \<and> (\<forall>m2. exec (OpFacadeClose v) (m2, w2) = (m2, w3))
       \<and> closed (conns w3 (TCPConn_of v))
       \<and> (\<forall>p. cmdConn m1 = Some p \<longrightarrow> closed (conns w3 p))
       \<and> slot w3 = Some disconnected"
proof -
  have v: "modem v = m1 \<and> dataConn m1 = Some (TCPConn_of v)"
    using assms(1)
    by (auto simp add: awaitConnect_def andThen_def recv_def split: option.splits if_splits)
  have c: "Close (modem v, w2) = (Done (), (modem v', w3))" and v': "v' = v\<lparr>modem := modem v'\<rparr>"
    using assms(2) by (auto simp add: varaDataConn_Close_def split: prod.splits)
  obtain wX where t: "Close_teardown (modem v, wX) = (Done (), (modem v', w3))"
    using Close_Done [OF c] by blast
  have e: "slot wX = None" using t by (rule Close_teardown_Done)
  have ex: "exec (OpFacadeClose v) (m2, w2) = (m2, w3)" for m2
    using assms(2) by simp
  have "(modem v', w3) =
      ((modem v)\<lparr>lastState := disconnected, dataConn := None, cmdConn := None, toCall := [],
         busy := False\<rparr>,
       snd (disconnectTCP (cmdConn (modem v))
              (snd (disconnectTCP (dataConn (modem v))
                 (wX\<lparr>keyed := keyed wX
                        @ (case rig (modem v) of None \<Rightarrow> [] | Some r \<Rightarrow> [(r, False)]),
                    slot := Some disconnected\<rparr>)))))"
    using t Close_teardown_empty [OF e, of "modem v"] by simp
  then have mv: "modem v' = (modem v)\<lparr>lastState := disconnected, dataConn := None,
         cmdConn := None, toCall := [], busy := False\<rparr>"
    and w3: "w3 = snd (disconnectTCP (cmdConn (modem v))
              (snd (disconnectTCP (dataConn (modem v))
                 (wX\<lparr>keyed := keyed wX
                        @ (case rig (modem v) of None \<Rightarrow> [] | Some r \<Rightarrow> [(r, False)]),
                    slot := Some disconnected\<rparr>))))"
    by simp_all
  show ?thesis
    using v ex by (simp add: mv w3 del: exec.simps)
qed

theorem facade_Close_on_copy_witness:
  "awaitConnect answeredState = (Done dialledFacade, dialledState)
   \<and> fst (varaDataConn_Close dialledFacade (snd dialledState)) = Done ()
   \<and> modem dialledFacade = fst dialledState
   \<and> lastState (modem (fst (snd (varaDataConn_Close dialledFacade (snd dialledState))))) = disconnected
   \<and> cmdConn (modem (fst (snd (varaDataConn_Close dialledFacade (snd dialledState))))) = None
   \<and> toCall (modem (fst (snd (varaDataConn_Close dialledFacade (snd dialledState))))) = []
   \<and> fst (exec (OpFacadeClose dialledFacade) dialledState) = fst dialledState
   \<and> lastState (fst dialledState) = connected
   \<and> toCall (fst dialledState) = ''N0CALL''
   \<and> cmdConn (fst dialledState) = Some 0
   \<and> dataConn (fst dialledState) = Some 1
   \<and> \<not> closed (conns (snd dialledState) 0) \<and> \<not> closed (conns (snd dialledState) 1)
   \<and> closed (conns (snd (snd (varaDataConn_Close dialledFacade (snd dialledState)))) 0)
   \<and> closed (conns (snd (snd (varaDataConn_Close dialledFacade (snd dialledState)))) 1)
   \<and> slot (snd dialledState) = None
   \<and> slot (snd (snd (varaDataConn_Close dialledFacade (snd dialledState)))) = Some disconnected"
proof -
  have a: "awaitConnect (fst answeredState, snd answeredState)
            = (Done dialledFacade, (fst dialledState, snd dialledState))"
    by (simp add: awaitConnect_answered)
  have d: "fst (varaDataConn_Close dialledFacade (snd dialledState)) = Done ()"
    using Close_dialled_done
    by (simp add: varaDataConn_Close_def dialledFacade_def split_beta)
  then have b: "varaDataConn_Close dialledFacade (snd dialledState)
            = (Done (), (fst (snd (varaDataConn_Close dialledFacade (snd dialledState))),
                         snd (snd (varaDataConn_Close dialledFacade (snd dialledState)))))"
    by (metis prod.collapse)
  have f: "lastState (fst dialledState) = connected" "toCall (fst dialledState) = ''N0CALL''"
    "cmdConn (fst dialledState) = Some 0" "dataConn (fst dialledState) = Some 1"
    "\<not> closed (conns (snd dialledState) 0)" "\<not> closed (conns (snd dialledState) 1)"
    "slot (snd dialledState) = None" "TCPConn_of dialledFacade = 1"
    by (simp_all add: dialledState_eq dialledFacade_def)
  show ?thesis
    using facade_Close_on_copy [OF a b] a d f
    by (simp del: exec.simps) (metis fst_conv prod.collapse)
qed

section \<open>The dial scenario\<close>








end
